theory Spec2Isabelle
  imports Main "HOL-Library.AList"
begin

section \<open>The crossword solver of generate.py\<close>

text \<open>
  The theory embeds the class \<open>CrosswordCreator\<close> of \<open>generate.py\<close>: node consistency,
  \<open>revise\<close>, \<open>ac3\<close>, the heuristics and the backtracking search. Python sets are iterated
  in an order the language does not fix; here a set is a list without repetitions, and
  the order of the list is the order of iteration. A Python exception is a value
  \<open>Inl e\<close> of a sum type.
\<close>

subsection \<open>Puzzle model\<close>

datatype direction = ACROSS | DOWN

text \<open>The class \<open>Variable\<close>: start cell \<open>(i, j)\<close>, direction and length.\<close>

record variable =
  var_i :: nat
  var_j :: nat
  var_direction :: direction
  var_length :: nat

text \<open>
  The class \<open>Crossword\<close> is imported by \<open>generate.py\<close> and is not part of it; the solver
  reads three of its attributes. They are parameters here: the set of variables (in the
  order of iteration), the vocabulary, and the table \<open>overlaps\<close>, which gives for an
  ordered pair of distinct variables either \<open>None\<close> or the pair of offsets \<open>(ix, iy)\<close>.
\<close>

record crossword =
  variables :: "variable list"
  words :: "string list"
  overlaps :: "variable \<Rightarrow> variable \<Rightarrow> (nat \<times> nat) option"

datatype error = IndexError | KeyError | TypeError | UnboundLocalError | RecursionError

type_synonym arc = "variable \<times> variable"

text \<open>
  Modelled from the spec: the keys of the dictionary \<open>crossword.overlaps\<close>, which is built
  outside \<open>generate.py\<close>. The spec describes the overlap relation as "mapping an ordered
  pair of distinct Variables (x, y) to either no overlap or a pair of integer offsets";
  the keys are therefore all ordered pairs of distinct variables.
\<close>

definition overlaps_keys :: "crossword \<Rightarrow> arc list" where
  "overlaps_keys cw =
     concat (map (\<lambda>x. map (\<lambda>y. (x, y)) (filter (\<lambda>y. x \<noteq> y) (variables cw))) (variables cw))"

text \<open>The subscript \<open>self.crossword.overlaps[x, y]\<close>: a missing key raises \<open>KeyError\<close>.\<close>

definition overlaps_get :: "crossword \<Rightarrow> variable \<Rightarrow> variable \<Rightarrow> error + (nat \<times> nat) option" where
  "overlaps_get cw x y =
     (if (x, y) \<in> set (overlaps_keys cw) then Inr (overlaps cw x y) else Inl KeyError)"

text \<open>
  Modelled from the spec: the method \<open>Crossword.neighbors\<close>, which is outside
  \<open>generate.py\<close>: "a derived neighbors query returning, for a Variable, the set of other
  Variables that overlap it".
\<close>

definition neighbors :: "crossword \<Rightarrow> variable \<Rightarrow> variable list" where
  "neighbors cw var = filter (\<lambda>v. v \<noteq> var \<and> overlaps cw v var \<noteq> None) (variables cw)"

subsection \<open>Domain store and consistency engine\<close>

text \<open>
  The dictionary \<open>self.domains\<close> maps each variable to its set of candidate words. Its keys
  are the variables of the puzzle and never change, so a dictionary object is a function
  from variables to word lists, and \<open>for var in self.domains\<close> runs over \<open>variables cw\<close>.
\<close>

type_synonym domains = "variable \<Rightarrow> string list"

text \<open>\<open>__init__\<close>: every variable starts with a copy of the whole vocabulary.\<close>

definition init_domains :: "crossword \<Rightarrow> domains" where
  "init_domains cw = (\<lambda>var. words cw)"

text \<open>\<open>word[k]\<close> for a non-negative \<open>k\<close>: \<open>IndexError\<close> when \<open>k\<close> is not below the length.\<close>

definition char_at :: "string \<Rightarrow> nat \<Rightarrow> error + char" where
  "char_at word k = (if k < length word then Inr (word ! k) else Inl IndexError)"

definition enforce_node_consistency :: "crossword \<Rightarrow> domains \<Rightarrow> domains" where
  "enforce_node_consistency cw d =
     fold (\<lambda>var d'. d'(var := filter (\<lambda>word. \<not> length word \<noteq> var_length var) (d' var)))
       (variables cw) d"

text \<open>
  \<open>any(yword[overlap[1]] == xLetter for yword in self.domains[y])\<close>: the generator stops
  at the first word that agrees, and a word too short for the offset raises.
\<close>

fun any_agree :: "char \<Rightarrow> nat \<Rightarrow> string list \<Rightarrow> error + bool" where
  "any_agree xLetter oy [] = Inr False"
| "any_agree xLetter oy (yword # ywords) =
     (case char_at yword oy of
        Inl e \<Rightarrow> Inl e
      | Inr c \<Rightarrow> if c = xLetter then Inr True else any_agree xLetter oy ywords)"

text \<open>
  The loop of \<open>revise\<close> over a copy of \<open>self.domains[x]\<close>: the result is the list of words
  that stay in the domain, and the flag \<open>revised\<close>.
\<close>

fun revise_words :: "nat \<Rightarrow> nat \<Rightarrow> string list \<Rightarrow> string list \<Rightarrow> error + (string list \<times> bool)" where
  "revise_words ox oy ywords [] = Inr ([], False)"
| "revise_words ox oy ywords (word # ws) =
     (case char_at word ox of
        Inl e \<Rightarrow> Inl e
      | Inr xLetter \<Rightarrow>
          (case any_agree xLetter oy ywords of
             Inl e \<Rightarrow> Inl e
           | Inr found \<Rightarrow>
               (case revise_words ox oy ywords ws of
                  Inl e \<Rightarrow> Inl e
                | Inr (kept, revised) \<Rightarrow>
                    if \<not> found then Inr (kept, True) else Inr (word # kept, revised))))"

definition revise :: "crossword \<Rightarrow> variable \<Rightarrow> variable \<Rightarrow> domains \<Rightarrow> error + (bool \<times> domains)" where
  "revise cw x y d =
     (case overlaps_get cw x y of
        Inl e \<Rightarrow> Inl e
      | Inr None \<Rightarrow> Inr (False, d)
      | Inr (Some (ox, oy)) \<Rightarrow>
          (case revise_words ox oy (d y) (d x) of
             Inl e \<Rightarrow> Inl e
           | Inr (kept, revised) \<Rightarrow> Inr (revised, d(x := kept))))"

text \<open>The arcs that \<open>ac3\<close> puts on the queue after a revision of \<open>x\<close>.\<close>

definition reenqueued :: "crossword \<Rightarrow> variable \<Rightarrow> arc list" where
  "reenqueued cw x = map (\<lambda>z. (z, x)) (neighbors cw x)"

text \<open>
  One turn of the \<open>while\<close> loop of \<open>ac3\<close> on the arc \<open>(x, y)\<close> taken from the queue, the rest
  of the queue being \<open>arcs\<close>: either the function returns (\<open>Inl\<close> of the returned flag and
  the domains), or the loop goes on with a queue and domains (\<open>Inr\<close>).
\<close>

definition ac3_step ::
  "crossword \<Rightarrow> arc \<Rightarrow> arc list \<Rightarrow> domains \<Rightarrow> error + ((bool \<times> domains) + (arc list \<times> domains))" where
  "ac3_step cw a arcs d =
     (case revise cw (fst a) (snd a) d of
        Inl e \<Rightarrow> Inl e
      | Inr (revised, d') \<Rightarrow>
          if revised then
            (if length (d' (fst a)) = 0 then Inr (Inl (False, d'))
             else Inr (Inr (arcs @ reenqueued cw (fst a), d')))
          else Inr (Inr (arcs, d')))"

definition domains_size :: "crossword \<Rightarrow> domains \<Rightarrow> nat" where
  "domains_size cw d = sum_list (map (\<lambda>v. length (d v)) (variables cw))"

function ac3_loop :: "crossword \<Rightarrow> arc list \<Rightarrow> domains \<Rightarrow> error + (bool \<times> domains)" where
  "ac3_loop cw [] d = Inr (True, d)"
| "ac3_loop cw (a # arcs) d =
     (case ac3_step cw a arcs d of
        Inl e \<Rightarrow> Inl e
      | Inr (Inl r) \<Rightarrow> Inr r
      | Inr (Inr (arcs', d')) \<Rightarrow> ac3_loop cw arcs' d')"
  by pat_completeness auto

text \<open>Termination of the loop: a revision shrinks a domain, and otherwise the queue gets shorter.\<close>

lemma revise_words_kept:
  "revise_words ox oy ywords ws = Inr (kept, revised) \<Longrightarrow>
     length kept \<le> length ws \<and> (revised \<longrightarrow> length kept < length ws) \<and> (\<not> revised \<longrightarrow> kept = ws)"
proof (induction ws arbitrary: kept revised)
  case Nil
  then show ?case by simp
next
  case (Cons w ws)
  then show ?case
    by (fastforce split: sum.splits prod.splits if_splits)
qed

lemma overlaps_keys_iff:
  "(x, y) \<in> set (overlaps_keys cw) \<longleftrightarrow> x \<in> set (variables cw) \<and> y \<in> set (variables cw) \<and> x \<noteq> y"
  by (auto simp: overlaps_keys_def)

lemma sum_list_upd_le:
  "length ws \<le> length (d x) \<Longrightarrow>
     (\<Sum>v\<leftarrow>vs. length ((d(x := ws)) v)) \<le> (\<Sum>v\<leftarrow>vs. length (d v))"
  by (induction vs) auto

lemma sum_list_upd_less:
  "x \<in> set vs \<Longrightarrow> length ws < length (d x) \<Longrightarrow>
     (\<Sum>v\<leftarrow>vs. length ((d(x := ws)) v)) < (\<Sum>v\<leftarrow>vs. length (d v))"
proof (induction vs)
  case Nil
  then show ?case by simp
next
  case (Cons v vs)
  have le: "(\<Sum>v\<leftarrow>vs. length ((d(x := ws)) v)) \<le> (\<Sum>v\<leftarrow>vs. length (d v))"
    using Cons.prems(2) by (intro sum_list_upd_le) simp
  show ?case
  proof (cases "v = x")
    case True
    then show ?thesis using le Cons.prems(2) by simp
  next
    case False
    then show ?thesis using Cons by simp
  qed
qed

lemma revise_result:
  assumes "revise cw x y d = Inr (revised, d')"
  shows "(revised \<longrightarrow> domains_size cw d' < domains_size cw d) \<and> (\<not> revised \<longrightarrow> d' = d)"
proof (cases "overlaps_get cw x y")
  case (Inl e)
  then show ?thesis using assms by (simp add: revise_def)
next
  case (Inr ov)
  show ?thesis
  proof (cases ov)
    case None
    then show ?thesis using assms Inr by (simp add: revise_def)
  next
    case (Some p)
    obtain ox oy where p: "p = (ox, oy)" by (cases p)
    from Inr have key: "(x, y) \<in> set (overlaps_keys cw)"
      by (auto simp: overlaps_get_def split: if_splits)
    then have x: "x \<in> set (variables cw)" by (simp add: overlaps_keys_iff)
    from assms Inr Some p obtain kept where
      rw: "revise_words ox oy (d y) (d x) = Inr (kept, revised)" and d': "d' = d(x := kept)"
      by (auto simp: revise_def split: sum.splits)
    have k: "(revised \<longrightarrow> length kept < length (d x)) \<and> (\<not> revised \<longrightarrow> kept = d x)"
      using revise_words_kept [OF rw] by simp
    have "revised \<Longrightarrow> domains_size cw (d(x := kept)) < domains_size cw d"
      unfolding domains_size_def using k by (intro sum_list_upd_less [OF x]) simp
    moreover have "\<not> revised \<Longrightarrow> d(x := kept) = d"
      using k by auto
    ultimately show ?thesis using d' by blast
  qed
qed

lemma ac3_step_continue:
  assumes "ac3_step cw a arcs d = Inr (Inr (arcs', d'))"
  shows "domains_size cw d' < domains_size cw d \<or> (d' = d \<and> arcs' = arcs)"
proof (cases "revise cw (fst a) (snd a) d")
  case (Inl e)
  then show ?thesis using assms by (simp add: ac3_step_def)
next
  case (Inr r)
  obtain revised d1 where r: "r = (revised, d1)" by (cases r)
  have d1: "d1 = d'" and q: "\<not> revised \<Longrightarrow> arcs' = arcs"
    using assms Inr r by (simp_all add: ac3_step_def split: if_splits)
  from revise_result [of cw "fst a" "snd a" d revised d1] Inr r d1 q
  show ?thesis by (cases revised) simp_all
qed

termination ac3_loop
  apply (relation "measures [\<lambda>(cw, arcs, d). domains_size cw d, \<lambda>(cw, arcs, d). length arcs]")
   apply simp
  apply (auto dest: ac3_step_continue)
  done

text \<open>
  \<open>ac3(arcs)\<close>: \<open>if not arcs\<close> holds for \<open>None\<close> only, since a \<open>Queue\<close> object is true even
  when it is empty; the queue is then filled with the keys of \<open>crossword.overlaps\<close>.
\<close>

definition ac3 :: "crossword \<Rightarrow> arc list option \<Rightarrow> domains \<Rightarrow> error + (bool \<times> domains)" where
  "ac3 cw arcs d =
     (case arcs of
        None \<Rightarrow> ac3_loop cw (overlaps_keys cw) d
      | Some queue \<Rightarrow> ac3_loop cw queue d)"

definition get_neighbors_overlap_queue :: "crossword \<Rightarrow> variable \<Rightarrow> arc list" where
  "get_neighbors_overlap_queue cw var = filter (\<lambda>overlap. snd overlap = var) (overlaps_keys cw)"

subsection \<open>Assignments and the search heuristics\<close>

text \<open>
  A key of the dictionary \<open>assignment\<close> is a Python object; the code looks up variables
  and, in \<open>order_domain_values\<close>, a word. A string never equals a \<open>Variable\<close>. The
  dictionary is an association list; \<open>assignment[var] = value\<close> is \<open>AList.update\<close> and
  \<open>del assignment[var]\<close> is \<open>AList.delete\<close>.
\<close>

datatype pykey = KVar variable | KStr string

type_synonym assignment = "(pykey \<times> string) list"

text \<open>\<open>key in assignment\<close>.\<close>

definition in_assignment :: "pykey \<Rightarrow> assignment \<Rightarrow> bool" where
  "in_assignment k a = (map_of a k \<noteq> None)"

text \<open>\<open>var in assignment and assignment[var]\<close>: the key is present and its word is not empty.\<close>

definition assigned_word :: "assignment \<Rightarrow> variable \<Rightarrow> string option" where
  "assigned_word a var =
     (case map_of a (KVar var) of
        None \<Rightarrow> None
      | Some w \<Rightarrow> if w = [] then None else Some w)"

definition assignment_complete :: "crossword \<Rightarrow> assignment \<Rightarrow> bool" where
  "assignment_complete cw a = list_all (\<lambda>var. in_assignment (KVar var) a) (variables cw)"

text \<open>
  The inner loop of \<open>consistent\<close> over the neighbours of \<open>var\<close>, whose word is \<open>w\<close>:
  \<open>Inr False\<close> is the \<open>return False\<close> inside the loop, \<open>Inr True\<close> the end of the loop. The
  subscript \<open>overlap[0]\<close> of \<open>None\<close> raises \<open>TypeError\<close>.
\<close>

fun consistent_neighbors ::
  "crossword \<Rightarrow> assignment \<Rightarrow> variable \<Rightarrow> string \<Rightarrow> variable list \<Rightarrow> error + bool" where
  "consistent_neighbors cw a var w [] = Inr True"
| "consistent_neighbors cw a var w (neighbor # ns) =
     (case assigned_word a neighbor of
        None \<Rightarrow> consistent_neighbors cw a var w ns
      | Some nw \<Rightarrow>
          (case overlaps_get cw var neighbor of
             Inl e \<Rightarrow> Inl e
           | Inr None \<Rightarrow> Inl TypeError
           | Inr (Some (ov, on)) \<Rightarrow>
               (case char_at w ov of
                  Inl e \<Rightarrow> Inl e
                | Inr c1 \<Rightarrow>
                    (case char_at nw on of
                       Inl e \<Rightarrow> Inl e
                     | Inr c2 \<Rightarrow>
                         if c1 \<noteq> c2 then Inr False else consistent_neighbors cw a var w ns))))"

text \<open>
  The outer loop of \<open>consistent\<close> over \<open>self.domains\<close>, with the set \<open>used_words\<close> and the
  counter \<open>assigned_words_count\<close>; \<open>Inr None\<close> is a \<open>return False\<close> inside the loop.
\<close>

fun consistent_loop ::
  "crossword \<Rightarrow> assignment \<Rightarrow> variable list \<Rightarrow> string list \<Rightarrow> nat \<Rightarrow> error + (string list \<times> nat) option" where
  "consistent_loop cw a [] used_words n = Inr (Some (used_words, n))"
| "consistent_loop cw a (var # vs) used_words n =
     (case assigned_word a var of
        None \<Rightarrow> consistent_loop cw a vs used_words n
      | Some w \<Rightarrow>
          (case consistent_neighbors cw a var w (neighbors cw var) of
             Inl e \<Rightarrow> Inl e
           | Inr False \<Rightarrow> Inr None
           | Inr True \<Rightarrow>
               if var_length var \<noteq> length w then Inr None
               else consistent_loop cw a vs (List.insert w used_words) (n + 1)))"

definition consistent :: "crossword \<Rightarrow> assignment \<Rightarrow> error + bool" where
  "consistent cw a =
     (case consistent_loop cw a (variables cw) [] 0 of
        Inl e \<Rightarrow> Inl e
      | Inr None \<Rightarrow> Inr False
      | Inr (Some (used_words, n)) \<Rightarrow> if length used_words \<noteq> n then Inr False else Inr True)"

text \<open>
  \<open>order_domain_values\<close>. The innermost loop runs over the words of a neighbour's domain;
  its test \<open>neigbor_word in assignment\<close> looks the word up among the keys of the
  assignment. \<open>overlap\<close> is the value found in the table, and \<open>overlap[0]\<close> raises
  \<open>TypeError\<close> when it is \<open>None\<close>.
\<close>

fun score_words ::
  "assignment \<Rightarrow> string \<Rightarrow> (nat \<times> nat) option \<Rightarrow> string list \<Rightarrow> nat \<Rightarrow> error + nat" where
  "score_words a word overlap [] score = Inr score"
| "score_words a word overlap (neigbor_word # nws) score =
     (if in_assignment (KStr neigbor_word) a then score_words a word overlap nws score
      else
        (case overlap of
           None \<Rightarrow> Inl TypeError
         | Some (ov, on) \<Rightarrow>
             (case char_at word ov of
                Inl e \<Rightarrow> Inl e
              | Inr c1 \<Rightarrow>
                  (case char_at neigbor_word on of
                     Inl e \<Rightarrow> Inl e
                   | Inr c2 \<Rightarrow>
                       score_words a word overlap nws (if c1 \<noteq> c2 then score + 1 else score)))))"

fun score_neighbors ::
  "crossword \<Rightarrow> domains \<Rightarrow> assignment \<Rightarrow> variable \<Rightarrow> string \<Rightarrow> variable list \<Rightarrow> nat \<Rightarrow> error + nat" where
  "score_neighbors cw d a var word [] score = Inr score"
| "score_neighbors cw d a var word (neighbor # ns) score =
     (case overlaps_get cw var neighbor of
        Inl e \<Rightarrow> Inl e
      | Inr overlap \<Rightarrow>
          (case score_words a word overlap (d neighbor) score of
             Inl e \<Rightarrow> Inl e
           | Inr score' \<Rightarrow> score_neighbors cw d a var word ns score'))"

text \<open>The dictionary \<open>word_scores\<close>, in the order in which its keys are inserted.\<close>

fun word_scores ::
  "crossword \<Rightarrow> domains \<Rightarrow> assignment \<Rightarrow> variable \<Rightarrow> string list \<Rightarrow> error + (string \<times> nat) list" where
  "word_scores cw d a var [] = Inr []"
| "word_scores cw d a var (word # ws) =
     (case score_neighbors cw d a var word (neighbors cw var) 0 of
        Inl e \<Rightarrow> Inl e
      | Inr score \<Rightarrow>
          (case word_scores cw d a var ws of
             Inl e \<Rightarrow> Inl e
           | Inr rest \<Rightarrow> Inr ((word, score) # rest)))"

text \<open>\<open>sorted\<close> is stable, as \<open>sort_key\<close> is.\<close>

definition order_domain_values ::
  "crossword \<Rightarrow> domains \<Rightarrow> variable \<Rightarrow> assignment \<Rightarrow> error + string list" where
  "order_domain_values cw d var a =
     (case word_scores cw d a var (d var) of
        Inl e \<Rightarrow> Inl e
      | Inr scores \<Rightarrow> Inr (map fst (sort_key snd scores)))"

text \<open>
  \<open>select_unassigned_variable\<close>: the first loop collects the unassigned variables with
  the smallest domain (\<open>None\<close> is the initial \<open>float('inf')\<close>), the second takes the first
  of them with the most neighbours (\<open>None\<close> is the initial \<open>float('-inf')\<close> and the unbound
  \<open>most_neighbors_variable\<close>).
\<close>

fun lowest_domain_count_loop ::
  "domains \<Rightarrow> assignment \<Rightarrow> variable list \<Rightarrow> variable list \<Rightarrow> nat option \<Rightarrow> variable list" where
  "lowest_domain_count_loop d a [] lowest_vars lowest = lowest_vars"
| "lowest_domain_count_loop d a (var # vs) lowest_vars lowest =
     (if in_assignment (KVar var) a then lowest_domain_count_loop d a vs lowest_vars lowest
      else
        (let domain_count = length (d var) in
         if (case lowest of None \<Rightarrow> True | Some c \<Rightarrow> domain_count < c)
         then lowest_domain_count_loop d a vs [var] (Some domain_count)
         else if lowest = Some domain_count
         then lowest_domain_count_loop d a vs (lowest_vars @ [var]) lowest
         else lowest_domain_count_loop d a vs lowest_vars lowest))"

fun highest_neighbors_loop ::
  "crossword \<Rightarrow> variable list \<Rightarrow> variable option \<Rightarrow> nat option \<Rightarrow> variable option" where
  "highest_neighbors_loop cw [] most highest = most"
| "highest_neighbors_loop cw (v # vs) most highest =
     (let neighbors_count = length (neighbors cw v) in
      if (case highest of None \<Rightarrow> True | Some h \<Rightarrow> h < neighbors_count)
      then highest_neighbors_loop cw vs (Some v) (Some neighbors_count)
      else highest_neighbors_loop cw vs most highest)"

definition select_unassigned_variable ::
  "crossword \<Rightarrow> domains \<Rightarrow> assignment \<Rightarrow> error + variable" where
  "select_unassigned_variable cw d a =
     (case highest_neighbors_loop cw (lowest_domain_count_loop d a (variables cw) [] None) None None of
        None \<Rightarrow> Inl UnboundLocalError
      | Some v \<Rightarrow> Inr v)"

subsection \<open>Backtracking search\<close>

text \<open>
  \<open>backtrack\<close> assigns dictionary objects to \<open>self.domains\<close> without copying them, so the
  attribute and a saved snapshot can be the same object. The solver's state is therefore
  a store of dictionary objects by address, the address held by \<open>self.domains\<close>, and the
  next free address. The sets inside a dictionary are never shared between two
  dictionaries: \<open>make_domains_copy\<close> copies each of them.
\<close>

record creator =
  store :: "nat \<Rightarrow> domains"
  self_domains :: nat
  next_addr :: nat

definition current :: "creator \<Rightarrow> domains" where
  "current s = store s (self_domains s)"

text \<open>An update in place of the dictionary that \<open>self.domains\<close> refers to.\<close>

definition set_current :: "creator \<Rightarrow> domains \<Rightarrow> creator" where
  "set_current s d = s\<lparr>store := (store s)(self_domains s := d)\<rparr>"

definition make_domains_copy :: "creator \<Rightarrow> nat \<times> creator" where
  "make_domains_copy s =
     (next_addr s, s\<lparr>store := (store s)(next_addr s := current s), next_addr := Suc (next_addr s)\<rparr>)"

definition ac3_self :: "crossword \<Rightarrow> arc list option \<Rightarrow> creator \<Rightarrow> error + (bool \<times> creator)" where
  "ac3_self cw arcs s =
     (case ac3 cw arcs (current s) of
        Inl e \<Rightarrow> Inl e
      | Inr (ok, d') \<Rightarrow> Inr (ok, set_current s d'))"

text \<open>\<open>if result\<close>: \<open>None\<close> and the empty dictionary are false.\<close>

definition truthy :: "assignment option \<Rightarrow> bool" where
  "truthy result = (case result of None \<Rightarrow> False | Some r \<Rightarrow> r \<noteq> [])"

text \<open>
  \<open>backtrack\<close> and its \<open>for\<close> loop. The first argument bounds the depth of the recursion,
  as the interpreter's recursion limit does. The dictionary \<open>assignment\<close> is one object
  that all calls update, so a call returns it with its result and the state.
\<close>

fun backtrack ::
  "nat \<Rightarrow> crossword \<Rightarrow> assignment \<Rightarrow> creator \<Rightarrow> error + (assignment option \<times> assignment \<times> creator)"
and backtrack_loop ::
  "nat \<Rightarrow> crossword \<Rightarrow> variable \<Rightarrow> string list \<Rightarrow> assignment \<Rightarrow> creator \<Rightarrow>
     error + (assignment option \<times> assignment \<times> creator)" where
  "backtrack 0 cw a s = Inl RecursionError"
| "backtrack (Suc n) cw a s =
     (if assignment_complete cw a then Inr (Some a, a, s)
      else
        (case select_unassigned_variable cw (current s) a of
           Inl e \<Rightarrow> Inl e
         | Inr var \<Rightarrow>
             (case order_domain_values cw (current s) var a of
                Inl e \<Rightarrow> Inl e
              | Inr vals \<Rightarrow> backtrack_loop n cw var vals a s)))"
| "backtrack_loop n cw var [] a s = Inr (None, a, s)"
| "backtrack_loop n cw var (val # vals) a s =
     (let a1 = AList.update (KVar var) val a in
      case consistent cw a1 of
        Inl e \<Rightarrow> Inl e
      | Inr False \<Rightarrow> backtrack_loop n cw var vals (AList.delete (KVar var) a1) s
      | Inr True \<Rightarrow>
          (let arcs_to_update = get_neighbors_overlap_queue cw var;
               (domains_before_consistencies, s1) = make_domains_copy s;
               s2 = set_current s1 ((current s1)(var := [val]))
           in case ac3_self cw (Some arcs_to_update) s2 of
                Inl e \<Rightarrow> Inl e
              | Inr (ok, s3) \<Rightarrow>
                  (let s4 = (if \<not> ok then s3\<lparr>self_domains := domains_before_consistencies\<rparr> else s3)
                   in case backtrack n cw a1 s4 of
                        Inl e \<Rightarrow> Inl e
                      | Inr (result, a2, s5) \<Rightarrow>
                          if truthy result then Inr (result, a2, s5)
                          else backtrack_loop n cw var vals (AList.delete (KVar var) a2)
                                 (s5\<lparr>self_domains := domains_before_consistencies\<rparr>))))"

text \<open>
  The object after \<open>__init__\<close>: one dictionary, at address 0. \<open>solve\<close> ignores the flag that
  the first \<open>ac3\<close> returns and starts the search from the empty dictionary.
\<close>

definition init_creator :: "crossword \<Rightarrow> creator" where
  "init_creator cw = \<lparr>store = (\<lambda>addr. init_domains cw), self_domains = 0, next_addr = 1\<rparr>"

definition solve_from ::
  "nat \<Rightarrow> crossword \<Rightarrow> creator \<Rightarrow> error + (assignment option \<times> assignment \<times> creator)" where
  "solve_from n cw s =
     (let s1 = set_current s (enforce_node_consistency cw (current s)) in
      case ac3_self cw None s1 of
        Inl e \<Rightarrow> Inl e
      | Inr (ok, s2) \<Rightarrow> backtrack n cw [] s2)"

text \<open>A depth of one more than the number of variables is enough for the search.\<close>

definition solve :: "crossword \<Rightarrow> error + (assignment option \<times> assignment \<times> creator)" where
  "solve cw = solve_from (Suc (length (variables cw))) cw (init_creator cw)"

subsection \<open>What \<open>consistent\<close> decides\<close>

text \<open>
  What every \<open>Crossword\<close> object satisfies: the variables and the words are sets, the
  table of overlaps is symmetric, and an offset lies inside its variable.
\<close>

definition wf_crossword :: "crossword \<Rightarrow> bool" where
  "wf_crossword cw \<longleftrightarrow>
     distinct (variables cw) \<and> distinct (words cw) \<and>
     (\<forall>x \<in> set (variables cw). \<forall>y \<in> set (variables cw).
        x \<noteq> y \<longrightarrow>
          (case overlaps cw x y of
             None \<Rightarrow> overlaps cw y x = None
           | Some (ox, oy) \<Rightarrow> overlaps cw y x = Some (oy, ox) \<and> ox < var_length x \<and> oy < var_length y))"

text \<open>Two words agree at a pair of offsets.\<close>

definition agree_at :: "nat \<Rightarrow> nat \<Rightarrow> string \<Rightarrow> string \<Rightarrow> bool" where
  "agree_at ox oy w v \<longleftrightarrow> ox < length w \<and> oy < length v \<and> w ! ox = v ! oy"

text \<open>
  The three conditions of the specification for an assignment, given as the function
  \<open>f\<close> from variables to their words: (a) the assigned words are pairwise distinct,
  (b) two assigned variables that overlap agree at the offsets, (c) every assigned word
  has the length of its variable.
\<close>

definition consistent_spec :: "crossword \<Rightarrow> (variable \<Rightarrow> string option) \<Rightarrow> bool" where
  "consistent_spec cw f \<longleftrightarrow>
     distinct (List.map_filter f (variables cw)) \<and>
     (\<forall>x \<in> set (variables cw).
        case f x of
          None \<Rightarrow> True
        | Some w \<Rightarrow>
            (\<forall>y \<in> set (variables cw).
               case f y of
                 None \<Rightarrow> True
               | Some v \<Rightarrow>
                   y \<noteq> x \<longrightarrow>
                     (case overlaps cw x y of
                        None \<Rightarrow> True
                      | Some (ox, oy) \<Rightarrow> agree_at ox oy w v)) \<and>
            var_length x = length w)"

lemma consistent_neighbors_True:
  "consistent_neighbors cw a var w ns = Inr True \<longleftrightarrow>
     (\<forall>nb \<in> set ns. \<forall>nw. assigned_word a nb = Some nw \<longrightarrow>
        (\<exists>ov on. overlaps_get cw var nb = Inr (Some (ov, on)) \<and> agree_at ov on w nw))"
proof (induction ns)
  case Nil
  then show ?case by simp
next
  case (Cons nb ns)
  show ?case
  proof (cases "assigned_word a nb")
    case None
    then show ?thesis using Cons by simp
  next
    case (Some nw)
    show ?thesis
    proof (cases "overlaps_get cw var nb")
      case (Inl e)
      then show ?thesis using Some by auto
    next
      case (Inr ovl)
      show ?thesis
      proof (cases ovl)
        case None
        then show ?thesis using Some Inr by auto
      next
        case (Some p)
        obtain ov on where p: "p = (ov, on)" by (cases p)
        show ?thesis using \<open>assigned_word a nb = Some nw\<close> Inr Some p Cons
          by (auto simp: char_at_def agree_at_def)
      qed
    qed
  qed
qed

lemma length_fold_insert_le:
  "length (fold List.insert ws used) \<le> length used + length ws"
proof (induction ws arbitrary: used)
  case Nil
  then show ?case by simp
next
  case (Cons w ws)
  have "length (fold List.insert ws (List.insert w used)) \<le> length (List.insert w used) + length ws"
    by (rule Cons.IH)
  also have "\<dots> \<le> length used + length (w # ws)"
    by (simp add: List.insert_def)
  finally show ?case by simp
qed

lemma length_fold_insert_eq:
  "length (fold List.insert ws used) = length used + length ws \<longleftrightarrow>
     distinct ws \<and> set ws \<inter> set used = {}"
proof (induction ws arbitrary: used)
  case Nil
  then show ?case by simp
next
  case (Cons w ws)
  show ?case
  proof (cases "w \<in> set used")
    case True
    then have "List.insert w used = used" by (simp add: List.insert_def)
    moreover have "length (fold List.insert ws used) \<le> length used + length ws"
      by (rule length_fold_insert_le)
    ultimately show ?thesis using True by auto
  next
    case False
    then have ins: "List.insert w used = w # used" by (simp add: List.insert_def)
    show ?thesis using Cons.IH [of "w # used"] False by (auto simp: ins)
  qed
qed

text \<open>The words of the variables of a list that hold a non-empty word.\<close>

definition assigned_words :: "assignment \<Rightarrow> variable list \<Rightarrow> string list" where
  "assigned_words a vs = List.map_filter (assigned_word a) vs"

lemma consistent_loop_Some:
  "consistent_loop cw a vs used n = Inr (Some (used', n')) \<longleftrightarrow>
     (\<forall>var \<in> set vs. \<forall>w. assigned_word a var = Some w \<longrightarrow>
        consistent_neighbors cw a var w (neighbors cw var) = Inr True \<and> var_length var = length w) \<and>
     used' = fold List.insert (assigned_words a vs) used \<and> n' = n + length (assigned_words a vs)"
proof (induction vs arbitrary: used n)
  case Nil
  then show ?case by (auto simp: assigned_words_def List.map_filter_simps)
next
  case (Cons var vs)
  show ?case
  proof (cases "assigned_word a var")
    case None
    then show ?thesis using Cons.IH [of used n] by (simp add: assigned_words_def List.map_filter_simps)
  next
    case (Some w)
    show ?thesis
    proof (cases "consistent_neighbors cw a var w (neighbors cw var)")
      case (Inl e)
      then show ?thesis using Some by auto
    next
      case (Inr b)
      show ?thesis
      proof (cases "b \<and> var_length var = length w")
        case True
        then show ?thesis using Some Inr Cons.IH [of "List.insert w used" "n + 1"]
          by (auto simp: assigned_words_def List.map_filter_simps)
      next
        case False
        then show ?thesis using Some Inr by (auto split: bool.splits)
      qed
    qed
  qed
qed

lemma wf_overlaps_sym:
  assumes "wf_crossword cw" "x \<in> set (variables cw)" "y \<in> set (variables cw)" "x \<noteq> y"
  shows "(overlaps cw y x = None) = (overlaps cw x y = None)"
proof -
  have xy: "case overlaps cw x y of None \<Rightarrow> overlaps cw y x = None
            | Some (ox, oy) \<Rightarrow> overlaps cw y x = Some (oy, ox) \<and> ox < var_length x \<and> oy < var_length y"
    using assms unfolding wf_crossword_def by blast
  then show ?thesis by (auto split: option.splits)
qed

lemma overlaps_get_vars:
  "x \<in> set (variables cw) \<Longrightarrow> y \<in> set (variables cw) \<Longrightarrow> x \<noteq> y \<Longrightarrow>
     overlaps_get cw x y = Inr (overlaps cw x y)"
  by (simp add: overlaps_get_def overlaps_keys_iff)

lemma set_neighbors:
  "set (neighbors cw var) = {v \<in> set (variables cw). v \<noteq> var \<and> overlaps cw v var \<noteq> None}"
  by (auto simp: neighbors_def)

lemma neighbors_agree_iff:
  assumes wf: "wf_crossword cw" and x: "x \<in> set (variables cw)"
  shows "consistent_neighbors cw a x w (neighbors cw x) = Inr True \<longleftrightarrow>
     (\<forall>y \<in> set (variables cw). \<forall>nw. y \<noteq> x \<longrightarrow> assigned_word a y = Some nw \<longrightarrow>
        (case overlaps cw x y of None \<Rightarrow> True | Some (ox, oy) \<Rightarrow> agree_at ox oy w nw))"
proof -
  have "consistent_neighbors cw a x w (neighbors cw x) = Inr True \<longleftrightarrow>
     (\<forall>y \<in> set (variables cw). y \<noteq> x \<and> overlaps cw y x \<noteq> None \<longrightarrow>
        (\<forall>nw. assigned_word a y = Some nw \<longrightarrow>
          (\<exists>ov on. overlaps_get cw x y = Inr (Some (ov, on)) \<and> agree_at ov on w nw)))"
    by (auto simp: consistent_neighbors_True set_neighbors)
  also have "\<dots> \<longleftrightarrow>
     (\<forall>y \<in> set (variables cw). \<forall>nw. y \<noteq> x \<longrightarrow> assigned_word a y = Some nw \<longrightarrow>
        (case overlaps cw x y of None \<Rightarrow> True | Some (ox, oy) \<Rightarrow> agree_at ox oy w nw))"
  proof (intro ball_cong refl)
    fix y assume y: "y \<in> set (variables cw)"
    show "(y \<noteq> x \<and> overlaps cw y x \<noteq> None \<longrightarrow>
        (\<forall>nw. assigned_word a y = Some nw \<longrightarrow>
          (\<exists>ov on. overlaps_get cw x y = Inr (Some (ov, on)) \<and> agree_at ov on w nw))) =
       (\<forall>nw. y \<noteq> x \<longrightarrow> assigned_word a y = Some nw \<longrightarrow>
        (case overlaps cw x y of None \<Rightarrow> True | Some (ox, oy) \<Rightarrow> agree_at ox oy w nw))"
    proof (cases "y = x")
      case True
      then show ?thesis by simp
    next
      case False
      then have "x \<noteq> y" by simp
      from wf_overlaps_sym [OF wf x y this] overlaps_get_vars [OF x y this] False
      show ?thesis by (auto split: option.splits)
    qed
  qed
  finally show ?thesis .
qed

lemma consistent_spec_alt:
  "consistent_spec cw f \<longleftrightarrow>
     (\<forall>x \<in> set (variables cw). \<forall>w. f x = Some w \<longrightarrow>
        (\<forall>y \<in> set (variables cw). \<forall>nw. y \<noteq> x \<longrightarrow> f y = Some nw \<longrightarrow>
           (case overlaps cw x y of None \<Rightarrow> True | Some (ox, oy) \<Rightarrow> agree_at ox oy w nw)) \<and>
        var_length x = length w) \<and>
     distinct (List.map_filter f (variables cw))"
proof -
  have inner: "\<And>x w. (\<forall>y \<in> set (variables cw).
               case f y of
                 None \<Rightarrow> True
               | Some v \<Rightarrow>
                   y \<noteq> x \<longrightarrow>
                     (case overlaps cw x y of
                        None \<Rightarrow> True
                      | Some (ox, oy) \<Rightarrow> agree_at ox oy w v)) \<longleftrightarrow>
        (\<forall>y \<in> set (variables cw). \<forall>nw. y \<noteq> x \<longrightarrow> f y = Some nw \<longrightarrow>
           (case overlaps cw x y of None \<Rightarrow> True | Some (ox, oy) \<Rightarrow> agree_at ox oy w nw))"
    by (intro ball_cong refl) (simp split: option.split)
  show ?thesis
    unfolding consistent_spec_def inner
    by (auto split: option.split_asm option.split)
qed

lemma consistent_iff:
  assumes wf: "wf_crossword cw"
  shows "consistent cw a = Inr True \<longleftrightarrow> consistent_spec cw (assigned_word a)"
proof -
  let ?ws = "assigned_words a (variables cw)"
  have "consistent cw a = Inr True \<longleftrightarrow>
     (\<exists>used' n'. consistent_loop cw a (variables cw) [] 0 = Inr (Some (used', n')) \<and> length used' = n')"
    by (auto simp: consistent_def split: sum.splits option.splits)
  also have "\<dots> \<longleftrightarrow>
     (\<forall>var \<in> set (variables cw). \<forall>w. assigned_word a var = Some w \<longrightarrow>
        consistent_neighbors cw a var w (neighbors cw var) = Inr True \<and> var_length var = length w) \<and>
     length (fold List.insert ?ws []) = length ?ws"
    by (auto simp: consistent_loop_Some)
  also have "length (fold List.insert ?ws []) = length ?ws \<longleftrightarrow> distinct ?ws"
    using length_fold_insert_eq [of ?ws "[]"] by simp
  finally have step: "consistent cw a = Inr True \<longleftrightarrow>
     (\<forall>var \<in> set (variables cw). \<forall>w. assigned_word a var = Some w \<longrightarrow>
        consistent_neighbors cw a var w (neighbors cw var) = Inr True \<and> var_length var = length w) \<and>
     distinct ?ws" .
  have "(\<forall>var \<in> set (variables cw). \<forall>w. assigned_word a var = Some w \<longrightarrow>
        consistent_neighbors cw a var w (neighbors cw var) = Inr True \<and> var_length var = length w) \<longleftrightarrow>
     (\<forall>x \<in> set (variables cw). \<forall>w. assigned_word a x = Some w \<longrightarrow>
        (\<forall>y \<in> set (variables cw). \<forall>nw. y \<noteq> x \<longrightarrow> assigned_word a y = Some nw \<longrightarrow>
           (case overlaps cw x y of None \<Rightarrow> True | Some (ox, oy) \<Rightarrow> agree_at ox oy w nw)) \<and>
        var_length x = length w)"
    by (simp add: neighbors_agree_iff [OF wf])
  then show ?thesis
    unfolding step consistent_spec_alt assigned_words_def by simp
qed

subsection \<open>Example puzzles\<close>

text \<open>
  Two crossing variables of length 3 with the vocabulary CAT, CAR, ARM: \<open>cross_X\<close> runs
  across from cell (0, 0), \<open>cross_Y\<close> runs down from cell (0, 1); the second letter of
  the across word is the first letter of the down word.
\<close>

definition cross_X :: variable where
  "cross_X = \<lparr>var_i = 0, var_j = 0, var_direction = ACROSS, var_length = 3\<rparr>"

definition cross_Y :: variable where
  "cross_Y = \<lparr>var_i = 0, var_j = 1, var_direction = DOWN, var_length = 3\<rparr>"

definition cross_overlaps :: "variable \<Rightarrow> variable \<Rightarrow> (nat \<times> nat) option" where
  "cross_overlaps x y = map_of [((cross_X, cross_Y), (1, 0)), ((cross_Y, cross_X), (0, 1))] (x, y)"

definition cross :: crossword where
  "cross = \<lparr>variables = [cross_X, cross_Y], words = [''CAT'', ''CAR'', ''ARM''], overlaps = cross_overlaps\<rparr>"

lemma cross_neq: "cross_X \<noteq> cross_Y" "cross_Y \<noteq> cross_X"
  by (simp_all add: cross_X_def cross_Y_def)

lemma cross_fields:
  "variables cross = [cross_X, cross_Y]" "words cross = [''CAT'', ''CAR'', ''ARM'']"
  "var_length cross_X = 3" "var_length cross_Y = 3"
  by (simp_all add: cross_def cross_X_def cross_Y_def)

lemma cross_table:
  "overlaps cross cross_X cross_Y = Some (1, 0)" "overlaps cross cross_Y cross_X = Some (0, 1)"
  by (simp_all add: cross_def cross_overlaps_def cross_neq)

lemma cross_keys: "overlaps_keys cross = [(cross_X, cross_Y), (cross_Y, cross_X)]"
  by (simp add: overlaps_keys_def cross_fields cross_neq)

lemma cross_overlaps_get:
  "overlaps_get cross cross_X cross_Y = Inr (Some (1, 0))"
  "overlaps_get cross cross_Y cross_X = Inr (Some (0, 1))"
  by (simp_all add: overlaps_get_def cross_keys cross_table)

lemma cross_neighbors: "neighbors cross cross_X = [cross_Y]" "neighbors cross cross_Y = [cross_X]"
  by (simp_all add: neighbors_def cross_fields cross_table cross_neq)

lemmas cross_simps = cross_neq cross_fields cross_table cross_keys cross_overlaps_get cross_neighbors

lemma wf_cross: "wf_crossword cross"
  by (simp add: wf_crossword_def cross_simps)

section \<open>The claims\<close>

subsection \<open>C7: the consistency check\<close>

text \<open>
  C7, amended. For every well-formed puzzle and every assignment, \<open>consistent\<close> returns
  \<open>True\<close> if and only if the three conditions (a) pairwise distinct words, (b) agreement
  at the offsets of every overlapping pair, (c) word length equal to the variable's
  length hold for the variables that are assigned a non-empty word. A variable whose
  word is the empty string is skipped as if it were unassigned (the test
  \<open>var in assignment and assignment[var]\<close>). When the check raises, it does not return
  \<open>True\<close>, and one of the conditions fails.
\<close>

theorem consistent_characterisation:
  "wf_crossword cw \<Longrightarrow> (consistent cw a = Inr True) = consistent_spec cw (assigned_word a)"
  by (rule consistent_iff)

text \<open>
  Witness for C7 on the crossing puzzle: CAR across and ARM down agree on the shared
  letter A; CAR across and CAT down do not.
\<close>

theorem consistent_characterisation_witness:
  "wf_crossword cross \<and>
   consistent cross [(KVar cross_X, ''CAR''), (KVar cross_Y, ''ARM'')] = Inr True \<and>
   consistent_spec cross (assigned_word [(KVar cross_X, ''CAR''), (KVar cross_Y, ''ARM'')]) \<and>
   consistent cross [(KVar cross_X, ''CAR''), (KVar cross_Y, ''CAT'')] \<noteq> Inr True \<and>
   \<not> consistent_spec cross (assigned_word [(KVar cross_X, ''CAR''), (KVar cross_Y, ''CAT'')])"
proof -
  have 1: "consistent cross [(KVar cross_X, ''CAR''), (KVar cross_Y, ''ARM'')] = Inr True"
    by (simp add: consistent_def assigned_word_def char_at_def List.insert_def cross_simps)
  have 2: "consistent cross [(KVar cross_X, ''CAR''), (KVar cross_Y, ''CAT'')] \<noteq> Inr True"
    by (simp add: consistent_def assigned_word_def char_at_def List.insert_def cross_simps)
  show ?thesis
    using 1 2 wf_cross
      consistent_characterisation [OF wf_cross, of "[(KVar cross_X, ''CAR''), (KVar cross_Y, ''ARM'')]"]
      consistent_characterisation [OF wf_cross, of "[(KVar cross_X, ''CAR''), (KVar cross_Y, ''CAT'')]"]
    by simp
qed

text \<open>
  Counterexample to C7 as stated: the assignment that gives the across variable of length
  3 the empty word is accepted by \<open>consistent\<close>, although the word has not the length of
  its variable.
\<close>

theorem consistent_empty_word_counterexample:
  "consistent cross [(KVar cross_X, [])] = Inr True \<and>
   \<not> consistent_spec cross (\<lambda>v. map_of [(KVar cross_X, [])] (KVar v))"
  by (simp add: consistent_def consistent_spec_def assigned_word_def List.map_filter_simps cross_simps)

end
